theory Spec2Isabelle
  imports Complex_Main "HOL-Library.Multiset" "HOL-Library.Char_ord"
    "HOL-Library.List_Lexorder" "HOL-Library.Product_Lexorder"
begin

section \<open>Python values used by the four pipelines\<close>

text \<open>
  A Python float is modelled as a real number or one of the three special values.
  Finite values are exact reals: rounding to the nearest double, and with it overflow
  to infinity, is not modelled.
\<close>

datatype pyfloat = Fin real | PInf | NInf | NaN

text \<open>Python's \<^verbatim>\<open>a < b\<close> on floats; every comparison with NaN is false.\<close>

fun py_lt :: "pyfloat \<Rightarrow> pyfloat \<Rightarrow> bool" where
  "py_lt NaN _ = False"
| "py_lt _ NaN = False"
| "py_lt (Fin x) (Fin y) = (x < y)"
| "py_lt (Fin _) PInf = True"
| "py_lt (Fin _) NInf = False"
| "py_lt PInf _ = False"
| "py_lt NInf NInf = False"
| "py_lt NInf _ = True"

text \<open>
  The builtins \<^verbatim>\<open>min(a, b)\<close> and \<^verbatim>\<open>max(a, b)\<close>: the first argument is kept
  unless the second is strictly smaller (strictly larger).
\<close>

definition py_min :: "pyfloat \<Rightarrow> pyfloat \<Rightarrow> pyfloat" where
  "py_min a b = (if py_lt b a then b else a)"

definition py_max :: "pyfloat \<Rightarrow> pyfloat \<Rightarrow> pyfloat" where
  "py_max a b = (if py_lt a b then b else a)"

text \<open>\<^verbatim>\<open>v * 5.0\<close> and the like: multiplication by a positive finite constant.\<close>

fun py_scale :: "pyfloat \<Rightarrow> real \<Rightarrow> pyfloat" where
  "py_scale (Fin x) k = Fin (x * k)"
| "py_scale PInf k = PInf"
| "py_scale NInf k = NInf"
| "py_scale NaN k = NaN"

subsection \<open>Characters\<close>

text \<open>
  Strings are byte lists; the character classes below are the ASCII part of what
  \<^verbatim>\<open>str.isspace\<close>, \<^verbatim>\<open>str.lower\<close> and the regular expression class
  \<^verbatim>\<open>\w\<close> accept. \<^verbatim>\<open>str.isspace\<close> holds of the six characters tab, line feed,
  vertical tab, form feed, carriage return and space, and of the four separators
  \<^verbatim>\<open>0x1C\<close> to \<^verbatim>\<open>0x1F\<close>.
\<close>

definition is_space :: "char \<Rightarrow> bool" where
  "is_space c = (let n = (of_char c :: nat) in (9 \<le> n \<and> n \<le> 13) \<or> (28 \<le> n \<and> n \<le> 32))"

text \<open>
  The whitespace \<^verbatim>\<open>float\<close> skips around a number in an ASCII string: the six
  characters only, not the separators \<^verbatim>\<open>0x1C\<close> to \<^verbatim>\<open>0x1F\<close>.
\<close>

definition is_float_space :: "char \<Rightarrow> bool" where
  "is_float_space c = (let n = (of_char c :: nat) in (9 \<le> n \<and> n \<le> 13) \<or> n = 32)"

definition is_digit :: "char \<Rightarrow> bool" where
  "is_digit c = (let n = (of_char c :: nat) in 48 \<le> n \<and> n \<le> 57)"

definition digit_val :: "char \<Rightarrow> nat" where
  "digit_val c = of_char c - 48"

definition to_lower :: "char \<Rightarrow> char" where
  "to_lower c = (let n = (of_char c :: nat) in if 65 \<le> n \<and> n \<le> 90 then char_of (n + 32) else c)"

definition is_word :: "char \<Rightarrow> bool" where
  "is_word c = (let n = (of_char c :: nat) in
     (48 \<le> n \<and> n \<le> 57) \<or> (65 \<le> n \<and> n \<le> 90) \<or> (97 \<le> n \<and> n \<le> 122) \<or> n = 95)"

subsection \<open>\<^verbatim>\<open>str.split()\<close>\<close>

text \<open>
  \<^verbatim>\<open>s.split()\<close> without arguments: the maximal runs of non-whitespace characters,
  in order. The first argument holds the characters of the current run, reversed.
\<close>

fun split_acc :: "string \<Rightarrow> string \<Rightarrow> string list" where
  "split_acc cur [] = (if cur = [] then [] else [rev cur])"
| "split_acc cur (c # cs) =
     (if is_space c then (if cur = [] then split_acc [] cs else rev cur # split_acc [] cs)
      else split_acc (c # cur) cs)"

definition py_split :: "string \<Rightarrow> string list" where
  "py_split s = split_acc [] s"

subsection \<open>\<^verbatim>\<open>float(str)\<close>\<close>

text \<open>
  The grammar of the builtin, on ASCII input:
  \<^verbatim>\<open>[sign] (number [exponent] | "inf" | "infinity" | "nan")\<close> with surrounding
  whitespace stripped, letters case-insensitive, and single underscores allowed
  between digits. \<open>None\<close> stands for \<^verbatim>\<open>ValueError\<close>.
\<close>

text \<open>The argument of \<^verbatim>\<open>float\<close> without the whitespace at its two ends.\<close>

definition float_strip :: "string \<Rightarrow> string" where
  "float_strip s = rev (dropWhile is_float_space (rev (dropWhile is_float_space s)))"

text \<open>
  A digit part: digits, each optionally preceded by one underscore except the first.
  Returns the value read, the number of digits read and the unread rest.
\<close>

fun digits_run :: "nat \<Rightarrow> nat \<Rightarrow> string \<Rightarrow> nat \<times> nat \<times> string" where
  "digits_run v n [] = (v, n, [])"
| "digits_run v n (c # cs) =
     (if is_digit c then digits_run (10 * v + digit_val c) (Suc n) cs
      else if c = CHR ''_'' \<and> 0 < n \<and> (case cs of [] \<Rightarrow> False | d # _ \<Rightarrow> is_digit d)
        then digits_run v n cs
      else (v, n, c # cs))"

definition parse_number :: "string \<Rightarrow> (real \<times> string) option" where
  "parse_number s =
     (case digits_run 0 0 s of (iv, ic, r1) \<Rightarrow>
        (case r1 of
           c # r2 \<Rightarrow>
             if c = CHR ''.'' then
               (case digits_run 0 0 r2 of (fv, fc, r3) \<Rightarrow>
                  if ic = 0 \<and> fc = 0 then None
                  else Some (real iv + real fv / 10 ^ fc, r3))
             else if ic = 0 then None else Some (real iv, r1)
         | [] \<Rightarrow> if ic = 0 then None else Some (real iv, r1)))"

definition parse_exponent :: "string \<Rightarrow> int option" where
  "parse_exponent s =
     (case s of
        [] \<Rightarrow> Some 0
      | c # r \<Rightarrow>
          if c = CHR ''e'' \<or> c = CHR ''E'' then
            (let (neg, r') = (case r of
                                [] \<Rightarrow> (False, r)
                              | d # ds \<Rightarrow> if d = CHR ''-'' then (True, ds)
                                          else if d = CHR ''+'' then (False, ds)
                                          else (False, r))
             in case digits_run 0 0 r' of (ev, ec, rest) \<Rightarrow>
                  if ec = 0 \<or> rest \<noteq> [] then None
                  else Some (if neg then - int ev else int ev))
          else None)"

definition pow10 :: "int \<Rightarrow> real" where
  "pow10 e = (if 0 \<le> e then 10 ^ nat e else 1 / 10 ^ nat (- e))"

definition py_float :: "string \<Rightarrow> pyfloat option" where
  "py_float s =
     (let t = float_strip s;
          (neg, body) = (case t of
                           [] \<Rightarrow> (False, t)
                         | c # cs \<Rightarrow> if c = CHR ''-'' then (True, cs)
                                     else if c = CHR ''+'' then (False, cs)
                                     else (False, t));
          low = map to_lower body
      in if low = ''inf'' \<or> low = ''infinity'' then Some (if neg then NInf else PInf)
         else if low = ''nan'' then Some NaN
         else (case parse_number body of
                 None \<Rightarrow> None
               | Some (m, rest) \<Rightarrow>
                   (case parse_exponent rest of
                      None \<Rightarrow> None
                    | Some e \<Rightarrow> Some (Fin ((if neg then - m else m) * pow10 e)))))"

section \<open>The elicited scorer (llama\_predictor.py)\<close>

text \<open>
  What the call \<^verbatim>\<open>chat(...)\<close> and the read of \<^verbatim>\<open>response.message.content\<close>
  produce: an exception of class \<^verbatim>\<open>Exception\<close>, or the content, which the client
  library types as an optional string.
\<close>

datatype chat_result = Raised | Content "string option"

text \<open>
  The loop \<^verbatim>\<open>for chunk in output.split(): try: float_val = float(chunk); break\<close>:
  the value of the first chunk that \<^verbatim>\<open>float\<close> accepts, \<open>None\<close> when the loop
  ends without one.
\<close>

fun first_float :: "string list \<Rightarrow> pyfloat option" where
  "first_float [] = None"
| "first_float (chunk # chunks) =
     (case py_float chunk of
        Some v \<Rightarrow> Some v
      | None \<Rightarrow> first_float chunks)"

text \<open>
  \<^verbatim>\<open>get_llm_similarity_ollama\<close> as a function of the outcome of its chat call.
  \<open>None\<close> is the Python \<^verbatim>\<open>None\<close> it returns. A content of \<^verbatim>\<open>None\<close> makes
  \<^verbatim>\<open>output.split()\<close> raise inside the \<^verbatim>\<open>try\<close>, which the handler turns into
  \<^verbatim>\<open>None\<close> as well.
\<close>

definition get_llm_similarity_ollama :: "chat_result \<Rightarrow> pyfloat option" where
  "get_llm_similarity_ollama r =
     (case r of
        Raised \<Rightarrow> None
      | Content None \<Rightarrow> None
      | Content (Some output) \<Rightarrow>
          (case first_float (py_split output) of
             None \<Rightarrow> None
           | Some float_val \<Rightarrow>
               Some (py_max (Fin 0) (py_min (Fin 5) (py_scale float_val 5)))))"

text \<open>The target range of the scores: a finite value between 0 and 5.\<close>

definition in_target_range :: "pyfloat \<Rightarrow> bool" where
  "in_target_range r = (case r of Fin y \<Rightarrow> 0 \<le> y \<and> y \<le> 5 | _ \<Rightarrow> False)"

text \<open>
  The prediction loop of \<^verbatim>\<open>main\<close> (steps C and E): one chat call per pair of
  \<^verbatim>\<open>zip(sents1, sents2)\<close>, the value 2.5 in place of \<^verbatim>\<open>None\<close>, appended to the
  list of raw predictions. The external model is not a function of the pair (it samples
  with a temperature), so the outcome of a call is indexed by the number of the call
  as well.
\<close>

fun predict_loop ::
  "(nat \<Rightarrow> string \<Rightarrow> string \<Rightarrow> chat_result) \<Rightarrow> nat \<Rightarrow> pyfloat list \<Rightarrow>
   (string \<times> string) list \<Rightarrow> pyfloat list" where
  "predict_loop chat k pred_raw [] = pred_raw"
| "predict_loop chat k pred_raw ((s1, s2) # pairs) =
     (let val = get_llm_similarity_ollama (chat k s1 s2);
          val = (case val of None \<Rightarrow> Fin (5 / 2) | Some v \<Rightarrow> v)
      in predict_loop chat (Suc k) (pred_raw @ [val]) pairs)"

definition llm_pred_raw ::
  "(nat \<Rightarrow> string \<Rightarrow> string \<Rightarrow> chat_result) \<Rightarrow> string list \<Rightarrow> string list \<Rightarrow> pyfloat list" where
  "llm_pred_raw chat sents1 sents2 = predict_loop chat 0 [] (zip sents1 sents2)"

section \<open>The dataset loader\<close>

text \<open>
  The loaders iterate over the rows that \<^verbatim>\<open>csv.reader\<close> yields; a row is the list
  of its fields. The state of the loop is the three lists it appends to.
\<close>

type_synonym loaded = "string list \<times> string list \<times> pyfloat list"

text \<open>predictor.py: \<^verbatim>\<open>if not row or len(row) < 7: continue\<close>, then the \<^verbatim>\<open>try\<close>.\<close>

definition csv_step :: "loaded \<Rightarrow> string list \<Rightarrow> loaded" where
  "csv_step st row =
     (case st of (sents1, sents2, scores) \<Rightarrow>
        if row = [] \<or> length row < 7 then st
        else (case py_float (row ! 4) of
                None \<Rightarrow> st
              | Some score \<Rightarrow> (sents1 @ [row ! 5], sents2 @ [row ! 6], scores @ [score])))"

definition load_sts_data_csv :: "string list list \<Rightarrow> loaded" where
  "load_sts_data_csv rows = foldl csv_step ([], [], []) rows"

text \<open>syntactic.py: \<^verbatim>\<open>if len(row) < 7: continue\<close>; the score is appended first.\<close>

definition tsv_step :: "loaded \<Rightarrow> string list \<Rightarrow> loaded" where
  "tsv_step st row =
     (case st of (sents1, sents2, scores) \<Rightarrow>
        if length row < 7 then st
        else (case py_float (row ! 4) of
                None \<Rightarrow> st
              | Some score \<Rightarrow>
                  (let scores' = scores @ [score];
                       sents1' = sents1 @ [row ! 5];
                       sents2' = sents2 @ [row ! 6]
                   in (sents1', sents2', scores'))))"

definition load_sts_data_tsv :: "string list list \<Rightarrow> loaded" where
  "load_sts_data_tsv rows = foldl tsv_step ([], [], []) rows"

text \<open>A row the loaders accept, and the record they read from it.\<close>

definition accepted :: "string list \<Rightarrow> bool" where
  "accepted row = (7 \<le> length row \<and> py_float (row ! 4) \<noteq> None)"

definition row_record :: "string list \<Rightarrow> string \<times> string \<times> pyfloat" where
  "row_record row = (row ! 5, row ! 6, the (py_float (row ! 4)))"

section \<open>The artifact writers\<close>

text \<open>
  The text a writer leaves in the file it opened for writing: the concatenation of its
  \<^verbatim>\<open>f.write\<close> calls. \<open>fmt\<close> is the formatting \<^verbatim>\<open>f"{s}"\<close> of one score.
\<close>

text \<open>predictor.py (and syntactic.py, semantic.py): \<^verbatim>\<open>f.write(f"{s}\n")\<close>.\<close>

definition save_scores_to_file :: "('a \<Rightarrow> string) \<Rightarrow> 'a list \<Rightarrow> string" where
  "save_scores_to_file fmt scores = foldl (\<lambda>f s. f @ fmt s @ [CHR 0x0A]) [] scores"

text \<open>llama\_predictor.py: \<^verbatim>\<open>f.write(f"{s}")\<close>.\<close>

definition llama_save_scores_to_file :: "('a \<Rightarrow> string) \<Rightarrow> 'a list \<Rightarrow> string" where
  "llama_save_scores_to_file fmt scores = foldl (\<lambda>f s. f @ fmt s) [] scores"

text \<open>The lines of a text: the pieces that end in a line feed, and a last unterminated piece if any.\<close>

fun lines_acc :: "string \<Rightarrow> string \<Rightarrow> string list" where
  "lines_acc cur [] = (if cur = [] then [] else [rev cur])"
| "lines_acc cur (c # cs) =
     (if c = CHR 0x0A then rev cur # lines_acc [] cs else lines_acc (c # cur) cs)"

definition text_lines :: "string \<Rightarrow> string list" where
  "text_lines s = lines_acc [] s"

section \<open>The evaluator\<close>

text \<open>
  Predictions and ground truth as the evaluator receives them are taken to be finite;
  the sequences are lists of reals.
\<close>

datatype py_error = ValueError | IndexError

definition mean :: "real list \<Rightarrow> real" where
  "mean xs = sum_list xs / real (length xs)"

definition dot :: "real list \<Rightarrow> real list \<Rightarrow> real" where
  "dot a b = sum_list (map2 (*) a b)"

text \<open>\<^verbatim>\<open>(x == x[0]).all()\<close>, the test \<^verbatim>\<open>scipy.stats.pearsonr\<close> makes for a constant input.\<close>

definition is_constant :: "real list \<Rightarrow> bool" where
  "is_constant x = list_all (\<lambda>v. v = hd x) x"

text \<open>
  The statistic \<^verbatim>\<open>scipy.stats.pearsonr\<close> returns (its second result, the p-value, is
  discarded by every caller): an error for unequal lengths or fewer than two values,
  NaN together with a warning for a constant input, and otherwise the correlation
  coefficient of the centred sequences, clipped to \<open>[-1, 1]\<close>.
\<close>

definition pearsonr :: "real list \<Rightarrow> real list \<Rightarrow> py_error + pyfloat" where
  "pearsonr x y =
     (if length x \<noteq> length y then Inl ValueError
      else if length x < 2 then Inl ValueError
      else if is_constant x \<or> is_constant y then Inr NaN
      else (let xm = map (\<lambda>v. v - mean x) x;
                ym = map (\<lambda>v. v - mean y) y;
                r = dot xm ym / (sqrt (dot xm xm) * sqrt (dot ym ym))
            in Inr (Fin (max (min r 1) (- 1)))))"

text \<open>
  Step G of \<^verbatim>\<open>main\<close>: \<^verbatim>\<open>pearson_corr, _ = pearsonr(test_pred_final, test_gt)\<close>. The
  value goes to the printed line and to the plot annotation as it is.
\<close>

definition main_pearson_corr :: "real list \<Rightarrow> real list \<Rightarrow> py_error + pyfloat" where
  "main_pearson_corr test_pred_final test_gt = pearsonr test_pred_final test_gt"

text \<open>
  Step H: \<^verbatim>\<open>sorted(zip(test_pred_final, test_gt), key=lambda p: (p[0], p[1]))\<close>, a
  stable sort on the key, tuples compared lexicographically.
\<close>

definition main_sorted_data :: "real list \<Rightarrow> real list \<Rightarrow> (real \<times> real) list" where
  "main_sorted_data test_pred_final test_gt =
     sort_key (\<lambda>p. (fst p, snd p)) (zip test_pred_final test_gt)"

text \<open>The order of the key: by prediction, ties by ground truth.\<close>

definition key_le :: "real \<times> real \<Rightarrow> real \<times> real \<Rightarrow> bool" where
  "key_le a b = (fst a < fst b \<or> (fst a = fst b \<and> snd a \<le> snd b))"

section \<open>Cosine similarity\<close>

text \<open>
  \<^verbatim>\<open>sklearn.preprocessing.normalize\<close> (L2) on one row: a row of norm zero is left as it
  is. \<^verbatim>\<open>sklearn.metrics.pairwise.cosine_similarity\<close> on two single-row matrices of the
  same width: the dot product of the normalised rows.
\<close>

definition l2_normalize :: "real list \<Rightarrow> real list" where
  "l2_normalize v = (let n = sqrt (dot v v) in if n = 0 then v else map (\<lambda>x. x / n) v)"

definition cosine_similarity :: "real list \<Rightarrow> real list \<Rightarrow> real" where
  "cosine_similarity a b = dot (l2_normalize a) (l2_normalize b)"

section \<open>The embedding scorer (semantic.py)\<close>

text \<open>
  \<^verbatim>\<open>model.encode\<close> maps a list of sentences to the list of their embeddings, one
  fixed-dimension vector per sentence; \<open>enc\<close> is the embedding of one sentence.
\<close>

definition encode :: "(string \<Rightarrow> real list) \<Rightarrow> string list \<Rightarrow> real list list" where
  "encode enc sentences = map enc sentences"

text \<open>
  The loop \<^verbatim>\<open>for i in range(half)\<close>; an index past the end of either slice is an
  \<^verbatim>\<open>IndexError\<close>.
\<close>

fun sims_loop ::
  "real list list \<Rightarrow> real list list \<Rightarrow> nat list \<Rightarrow> real list \<Rightarrow> py_error + real list" where
  "sims_loop emb_sents1 emb_sents2 [] sims = Inr sims"
| "sims_loop emb_sents1 emb_sents2 (i # rest) sims =
     (if i < length emb_sents1 \<and> i < length emb_sents2
      then sims_loop emb_sents1 emb_sents2 rest
             (sims @ [cosine_similarity (emb_sents1 ! i) (emb_sents2 ! i)])
      else Inl IndexError)"

definition compute_semantic_similarities ::
  "(string \<Rightarrow> real list) \<Rightarrow> string list \<Rightarrow> string list \<Rightarrow> py_error + real list" where
  "compute_semantic_similarities enc sents1 sents2 =
     (let all_sentences = sents1 @ sents2;
          all_embeddings = encode enc all_sentences;
          half = length sents1;
          emb_sents1 = take half all_embeddings;
          emb_sents2 = drop half all_embeddings
      in sims_loop emb_sents1 emb_sents2 [0..<half] [])"

section \<open>The lexical scorer (syntactic.py)\<close>

text \<open>
  \<^verbatim>\<open>TfidfVectorizer(lowercase=True, stop_words=None)\<close> with every other option at its
  default: the analyzer lowercases and takes the matches of \<^verbatim>\<open>\b\w\w+\b\<close>, the
  maximal runs of two or more word characters; the vocabulary is the sorted set of the
  corpus' tokens; the weight of a term is its count times
  \<open>ln ((1 + n) / (1 + df)) + 1\<close>; rows are L2-normalised.
\<close>

fun word_runs :: "string \<Rightarrow> string \<Rightarrow> string list" where
  "word_runs cur [] = (if 2 \<le> length cur then [rev cur] else [])"
| "word_runs cur (c # cs) =
     (if is_word c then word_runs (c # cur) cs
      else if 2 \<le> length cur then rev cur # word_runs [] cs
      else word_runs [] cs)"

definition analyze :: "string \<Rightarrow> string list" where
  "analyze s = word_runs [] (map to_lower s)"

record vectorizer =
  vocabulary :: "string list"
  idf :: "real list"

definition doc_freq :: "string list \<Rightarrow> string \<Rightarrow> nat" where
  "doc_freq corpus t = length (filter (\<lambda>d. t \<in> set (analyze d)) corpus)"

text \<open>\<^verbatim>\<open>vectorizer.fit\<close>; a corpus without any token is a \<^verbatim>\<open>ValueError\<close>.\<close>

definition fit :: "string list \<Rightarrow> py_error + vectorizer" where
  "fit corpus =
     (let vocab = sort (remdups (concat (map analyze corpus)))
      in if vocab = [] then Inl ValueError
         else Inr \<lparr> vocabulary = vocab,
                    idf = map (\<lambda>t. ln ((1 + real (length corpus)) / (1 + real (doc_freq corpus t))) + 1)
                            vocab \<rparr>)"

text \<open>\<^verbatim>\<open>vectorizer.transform([s])\<close>: the one row of the result.\<close>

definition transform :: "vectorizer \<Rightarrow> string \<Rightarrow> real list" where
  "transform vz s =
     l2_normalize (map2 (*) (map (\<lambda>t. real (count_list (analyze s) t)) (vocabulary vz)) (idf vz))"

definition compute_tfidf_similarities ::
  "string list \<Rightarrow> string list \<Rightarrow> vectorizer \<Rightarrow> real list" where
  "compute_tfidf_similarities sents1 sents2 vz =
     foldl (\<lambda>sims (s1, s2). sims @ [cosine_similarity (transform vz s1) (transform vz s2)])
       [] (zip sents1 sents2)"

text \<open>
  Steps 4.2 and 4.3 of \<^verbatim>\<open>main\<close>: the vectorizer is fit on both members of every
  training pair, then scores pairs.
\<close>

definition tfidf_scores ::
  "string list \<Rightarrow> string list \<Rightarrow> string list \<Rightarrow> string list \<Rightarrow> py_error + real list" where
  "tfidf_scores train_sents1 train_sents2 sents1 sents2 =
     (case fit (train_sents1 @ train_sents2) of
        Inl e \<Rightarrow> Inl e
      | Inr vz \<Rightarrow> Inr (compute_tfidf_similarities sents1 sents2 vz))"

section \<open>Example inputs\<close>

text \<open>
  Four rows of a data file: a header, a full row, a short row, and a full row with
  empty sentences and a trailing field.
\<close>

definition demo_rows :: "string list list" where
  "demo_rows =
     [[''genre'', ''file'', ''year'', ''id'', ''score'', ''sentence1'', ''sentence2''],
      [''main-captions'', ''MSRvid'', ''2012test'', ''0001'', ''5.000'', ''A plane is taking off.'',
       ''An air plane is taking off.''],
      [''short'', ''row''],
      [''main-captions'', ''MSRvid'', ''2012test'', ''0002'', ''3.8'', '''', '''', ''extra'']]"

text \<open>
  Three chat calls: a response with a number, a response without one, and a call that
  raises.
\<close>

definition demo_chat :: "nat \<Rightarrow> string \<Rightarrow> string \<Rightarrow> chat_result" where
  "demo_chat k s1 s2 =
     (if k = 0 then Content (Some ''0.8 (high similarity)'')
      else if k = 1 then Content (Some ''very similar'')
      else Raised)"

text \<open>
  What \<^verbatim>\<open>f"{s}"\<close> gives for the two scores 2.5 and 4.0; its value at any other
  score is not used.
\<close>

definition demo_str :: "pyfloat \<Rightarrow> string" where
  "demo_str s = (if s = Fin (5 / 2) then ''2.5'' else if s = Fin 4 then ''4.0'' else ''nan'')"

text \<open>A two-dimensional stand-in for the embedding of a sentence.\<close>

definition demo_enc :: "string \<Rightarrow> real list" where
  "demo_enc s = [real (length s), 1]"

section \<open>The elicited scorer: parsing, rescaling, clamping\<close>

lemma clip_in_target_range:
  "in_target_range (py_max (Fin 0) (py_min (Fin 5) v))"
  by (cases v) (auto simp: in_target_range_def py_max_def py_min_def)

lemma first_float_find:
  "first_float chunks =
     (case List.find (\<lambda>t. py_float t \<noteq> None) chunks of
        None \<Rightarrow> None
      | Some t \<Rightarrow> py_float t)"
  by (induction chunks) (auto split: option.splits)

text \<open>The chunks of \<^verbatim>\<open>split()\<close> are non-empty and free of whitespace.\<close>

lemma split_acc_tokens:
  "\<forall>c \<in> set cur. \<not> is_space c \<Longrightarrow> t \<in> set (split_acc cur s) \<Longrightarrow>
     t \<noteq> [] \<and> (\<forall>c \<in> set t. \<not> is_space c)"
proof (induction cur s rule: split_acc.induct)
  case (1 cur)
  then show ?case by (cases "cur = []") auto
next
  case (2 cur c cs)
  show ?case
  proof (cases "is_space c")
    case sp: True
    show ?thesis
    proof (cases "cur = []")
      case True
      with sp "2.prems" have "t \<in> set (split_acc [] cs)" by simp
      with "2.IH"(1) [OF sp True] show ?thesis by simp
    next
      case False
      with sp "2.prems" have "t = rev cur \<or> t \<in> set (split_acc [] cs)" by simp
      then show ?thesis
      proof
        assume "t = rev cur"
        with False "2.prems"(1) show ?thesis by simp
      next
        assume "t \<in> set (split_acc [] cs)"
        with "2.IH"(2) [OF sp False] show ?thesis by simp
      qed
    qed
  next
    case nsp: False
    with "2.prems" have "t \<in> set (split_acc (c # cur) cs)" "\<forall>d \<in> set (c # cur). \<not> is_space d"
      by simp_all
    with "2.IH"(3) [OF nsp] show ?thesis by blast
  qed
qed

lemma py_split_tokens:
  "t \<in> set (py_split s) \<Longrightarrow> t \<noteq> [] \<and> (\<forall>c \<in> set t. \<not> is_space c)"
  unfolding py_split_def using split_acc_tokens [of "[]" t s] by simp

text \<open>
  C1. For every response text, the scorer returns the value of the first whitespace
  token that parses as a float, multiplied by 5 and clamped into \<open>[0, 5]\<close>, and
  returns \<^verbatim>\<open>None\<close> (a failure, not the score 0) when no token parses. The response
  \<^verbatim>\<open>0.8 (high similarity)\<close> gives 4.0 and \<^verbatim>\<open>very similar\<close> gives the failure.
\<close>

theorem elicited_score_parser:
  "get_llm_similarity_ollama (Content (Some out)) =
     (case List.find (\<lambda>t. py_float t \<noteq> None) (py_split out) of
        None \<Rightarrow> None
      | Some t \<Rightarrow>
          map_option (\<lambda>v. py_max (Fin 0) (py_min (Fin 5) (py_scale v 5))) (py_float t))
   \<and> (case get_llm_similarity_ollama (Content (Some out)) of
        None \<Rightarrow> True
      | Some r \<Rightarrow> in_target_range r)
   \<and> get_llm_similarity_ollama (Content (Some ''0.8 (high similarity)'')) = Some (Fin 4)
   \<and> get_llm_similarity_ollama (Content (Some ''very similar'')) = None"
proof (intro conjI)
  show "get_llm_similarity_ollama (Content (Some out)) =
     (case List.find (\<lambda>t. py_float t \<noteq> None) (py_split out) of
        None \<Rightarrow> None
      | Some t \<Rightarrow>
          map_option (\<lambda>v. py_max (Fin 0) (py_min (Fin 5) (py_scale v 5))) (py_float t))"
    by (auto simp: get_llm_similarity_ollama_def first_float_find split: option.splits)
  show "case get_llm_similarity_ollama (Content (Some out)) of
        None \<Rightarrow> True
      | Some r \<Rightarrow> in_target_range r"
    by (auto simp: get_llm_similarity_ollama_def clip_in_target_range split: option.splits)
  show "get_llm_similarity_ollama (Content (Some ''0.8 (high similarity)'')) = Some (Fin 4)"
    by code_simp
  show "get_llm_similarity_ollama (Content (Some ''very similar'')) = None"
    by code_simp
qed

text \<open>
  The theorem at a response whose first token is no number and whose first number is
  out of range: \<^verbatim>\<open>1.3\<close> is taken, not \<^verbatim>\<open>0.2\<close>, and 6.5 is clamped to 5.
\<close>

theorem elicited_score_parser_witness:
  "List.find (\<lambda>t. py_float t \<noteq> None) (py_split ''maybe 1.3 or 0.2'') = Some ''1.3''
   \<and> get_llm_similarity_ollama (Content (Some ''maybe 1.3 or 0.2'')) = Some (Fin 5)
   \<and> in_target_range (Fin 5)"
proof -
  have f: "List.find (\<lambda>t. py_float t \<noteq> None) (py_split ''maybe 1.3 or 0.2'') = Some ''1.3''"
    by code_simp
  have v: "py_float ''1.3'' = Some (Fin (13 / 10))"
    by code_simp
  from elicited_score_parser [of "''maybe 1.3 or 0.2''"] f v
  show ?thesis by (simp add: py_min_def py_max_def in_target_range_def)
qed

section \<open>The dataset loader: accepted rows, order, alignment\<close>

text \<open>
  Field 4 may carry blanks and line ends around the number; a field that starts with
  the separator \<^verbatim>\<open>0x1C\<close> is no number, although \<^verbatim>\<open>split()\<close> would treat that
  character as whitespace.
\<close>

lemma float_strip_examples:
  "py_float ('' 5.000'' @ [CHR 0x09, CHR 0x0A]) = Some (Fin 5)"
  "py_float (CHR 0x1C # ''5.0'') = None"
  "py_float (''5.0'' @ [CHR 0x1F]) = None"
  "py_split (CHR 0x1C # ''5.0'') = [''5.0'']"
  by code_simp+

lemma csv_step_accepted:
  "csv_step (s1, s2, gt) row =
     (if accepted row
      then (s1 @ [fst (row_record row)], s2 @ [fst (snd (row_record row))],
            gt @ [snd (snd (row_record row))])
      else (s1, s2, gt))"
  by (auto simp: csv_step_def accepted_def row_record_def split: option.splits)

lemma tsv_step_csv_step: "tsv_step st row = csv_step st row"
  by (cases st) (auto simp: tsv_step_def csv_step_def split: option.splits)

lemma foldl_csv_step:
  "foldl csv_step (s1, s2, gt) rows =
     (s1 @ map (\<lambda>r. fst (row_record r)) (filter accepted rows),
      s2 @ map (\<lambda>r. fst (snd (row_record r))) (filter accepted rows),
      gt @ map (\<lambda>r. snd (snd (row_record r))) (filter accepted rows))"
proof (induction rows arbitrary: s1 s2 gt)
  case Nil
  show ?case by simp
next
  case (Cons row rows)
  show ?case
    by (cases "accepted row") (simp_all add: csv_step_accepted Cons.IH)
qed

lemma load_sts_data_tsv_csv: "load_sts_data_tsv rows = load_sts_data_csv rows"
proof -
  have "tsv_step = csv_step"
    by (intro ext) (rule tsv_step_csv_step)
  then show ?thesis
    by (simp add: load_sts_data_tsv_def load_sts_data_csv_def)
qed

lemma load_sts_data_csv_filter:
  "load_sts_data_csv rows =
     (map (\<lambda>r. r ! 5) (filter accepted rows),
      map (\<lambda>r. r ! 6) (filter accepted rows),
      map (\<lambda>r. the (py_float (r ! 4))) (filter accepted rows))"
  unfolding load_sts_data_csv_def foldl_csv_step by (simp add: row_record_def)

text \<open>
  C2. Over the rows of the input file, both loaders return fields 5, 6 and the parsed
  field 4 of exactly the rows that have at least 7 fields and a field 4 that parses as
  a float, in the order of the file. Every other row is passed over and the loop goes
  on; the sentence fields play no part in the test, so an empty sentence skips no row.
\<close>

theorem loader_accepts_exactly:
  "load_sts_data_csv rows =
     (map (\<lambda>r. r ! 5) (filter (\<lambda>r. 7 \<le> length r \<and> py_float (r ! 4) \<noteq> None) rows),
      map (\<lambda>r. r ! 6) (filter (\<lambda>r. 7 \<le> length r \<and> py_float (r ! 4) \<noteq> None) rows),
      map (\<lambda>r. the (py_float (r ! 4)))
        (filter (\<lambda>r. 7 \<le> length r \<and> py_float (r ! 4) \<noteq> None) rows))
   \<and> load_sts_data_tsv rows = load_sts_data_csv rows"
proof -
  have "accepted = (\<lambda>r. 7 \<le> length r \<and> py_float (r ! 4) \<noteq> None)"
    by (intro ext) (simp add: accepted_def)
  then show ?thesis
    using load_sts_data_csv_filter [of rows] load_sts_data_tsv_csv [of rows] by simp
qed

text \<open>
  The theorem on the example rows: the header (field 4 is no number) and the short row
  are passed over, the row with empty sentences is kept, after the first full row.
\<close>

theorem loader_accepts_exactly_witness:
  "filter (\<lambda>r. 7 \<le> length r \<and> py_float (r ! 4) \<noteq> None) demo_rows
     = [demo_rows ! 1, demo_rows ! 3]
   \<and> load_sts_data_tsv demo_rows =
       ([''A plane is taking off.'', ''''], [''An air plane is taking off.'', ''''],
        [Fin 5, Fin (19 / 5)])"
proof -
  have f: "filter (\<lambda>r. 7 \<le> length r \<and> py_float (r ! 4) \<noteq> None) demo_rows
             = [demo_rows ! 1, demo_rows ! 3]"
    unfolding demo_rows_def by code_simp
  have v: "py_float ''5.000'' = Some (Fin 5)" "py_float ''3.8'' = Some (Fin (19 / 5))"
    by code_simp+
  from loader_accepts_exactly [of demo_rows] show ?thesis
    unfolding f by (simp add: demo_rows_def v)
qed

text \<open>
  C6. The three lists the loader returns have one length, and their elements at one
  index are fields 5, 6 and the parsed field 4 of one row, the accepted row of that
  rank in the file.
\<close>

theorem loader_aligned:
  "case load_sts_data_csv rows of (sents1, sents2, scores) \<Rightarrow>
     length sents1 = length sents2 \<and> length sents2 = length scores
     \<and> length sents1 = length (filter accepted rows)
     \<and> (\<forall>i < length sents1.
          (sents1 ! i, sents2 ! i, scores ! i) = row_record (filter accepted rows ! i))"
  unfolding load_sts_data_csv_def foldl_csv_step by simp

theorem loader_aligned_witness:
  "load_sts_data_csv demo_rows =
     ([''A plane is taking off.'', ''''], [''An air plane is taking off.'', ''''],
      [Fin 5, Fin (19 / 5)])
   \<and> (1::nat) < length [''A plane is taking off.'', '''']
   \<and> ('''', '''', Fin (19 / 5)) = row_record (filter accepted demo_rows ! 1)"
proof -
  have l: "load_sts_data_csv demo_rows =
     ([''A plane is taking off.'', ''''], [''An air plane is taking off.'', ''''],
      [Fin 5, Fin (19 / 5)])"
    unfolding demo_rows_def by code_simp
  from loader_aligned [of demo_rows]
  have "\<forall>i < length [''A plane is taking off.'', ''''].
          ([''A plane is taking off.'', ''''] ! i, [''An air plane is taking off.'', ''''] ! i,
           [Fin 5, Fin (19 / 5)] ! i) = row_record (filter accepted demo_rows ! i)"
    unfolding l by simp
  then have "([''A plane is taking off.'', ''''] ! 1, [''An air plane is taking off.'', ''''] ! 1,
           [Fin 5, Fin (19 / 5)] ! 1) = row_record (filter accepted demo_rows ! 1)"
    by (elim allE [of _ 1]) simp
  with l show ?thesis by simp
qed

section \<open>The elicited scorer: the fallback value\<close>

lemma predict_loop_length:
  "length (predict_loop chat k pred_raw pairs) = length pred_raw + length pairs"
  by (induction chat k pred_raw pairs rule: predict_loop.induct) simp_all

lemma predict_loop_prefix:
  "j < length pred_raw \<Longrightarrow> predict_loop chat k pred_raw pairs ! j = pred_raw ! j"
  by (induction chat k pred_raw pairs rule: predict_loop.induct) (simp_all add: nth_append)

lemma predict_loop_nth:
  "i < length pairs \<Longrightarrow>
     predict_loop chat k pred_raw pairs ! (length pred_raw + i) =
       (case get_llm_similarity_ollama (chat (k + i) (fst (pairs ! i)) (snd (pairs ! i))) of
          None \<Rightarrow> Fin (5 / 2)
        | Some v \<Rightarrow> v)"
proof (induction chat k pred_raw pairs arbitrary: i rule: predict_loop.induct)
  case (1 chat k pred_raw)
  then show ?case by simp
next
  case (2 chat k pred_raw s1 s2 pairs)
  let ?val = "case get_llm_similarity_ollama (chat k s1 s2) of None \<Rightarrow> Fin (5 / 2) | Some v \<Rightarrow> v"
  show ?case
  proof (cases i)
    case 0
    have "predict_loop chat (Suc k) (pred_raw @ [?val]) pairs ! length pred_raw
            = (pred_raw @ [?val]) ! length pred_raw"
      by (rule predict_loop_prefix) simp
    with 0 show ?thesis by simp
  next
    case (Suc j)
    with "2.prems" have j: "j < length pairs" by simp
    from "2.IH" [OF refl refl j] Suc show ?thesis by simp
  qed
qed

lemma unparsable_gives_None:
  "\<forall>t \<in> set chunks. py_float t = None \<Longrightarrow> first_float chunks = None"
  by (induction chunks) simp_all

text \<open>
  C5. For the pair at position \<open>i\<close>, when the chat call raises, or returns no
  content, or returns a text none of whose tokens parses as a float, the raw prediction
  for that pair is 2.5; and the loop goes on to the end: the list of raw predictions
  has one entry for every pair.
\<close>

theorem llm_failure_fallback:
  assumes "i < length sents1" and "i < length sents2"
    and "chat i (sents1 ! i) (sents2 ! i) = Raised
         \<or> chat i (sents1 ! i) (sents2 ! i) = Content None
         \<or> (\<exists>out. chat i (sents1 ! i) (sents2 ! i) = Content (Some out)
               \<and> (\<forall>t \<in> set (py_split out). py_float t = None))"
  shows "length (llm_pred_raw chat sents1 sents2) = min (length sents1) (length sents2)
         \<and> llm_pred_raw chat sents1 sents2 ! i = Fin (5 / 2)"
proof
  show "length (llm_pred_raw chat sents1 sents2) = min (length sents1) (length sents2)"
    by (simp add: llm_pred_raw_def predict_loop_length)
  from assms(3) have "get_llm_similarity_ollama (chat i (sents1 ! i) (sents2 ! i)) = None"
    by (auto simp: get_llm_similarity_ollama_def unparsable_gives_None)
  moreover from assms(1,2) have "i < length (zip sents1 sents2)" by simp
  ultimately show "llm_pred_raw chat sents1 sents2 ! i = Fin (5 / 2)"
    using predict_loop_nth [of i "zip sents1 sents2" chat 0 "[]"] assms(1,2)
    by (simp add: llm_pred_raw_def)
qed

theorem llm_failure_fallback_witness:
  "(1::nat) < length [''a cat'', ''a dog'', ''a bird'']
   \<and> demo_chat 1 ''a dog'' ''the dog'' = Content (Some ''very similar'')
   \<and> llm_pred_raw demo_chat [''a cat'', ''a dog'', ''a bird''] [''the cat'', ''the dog'', ''the bird'']
       ! 1 = Fin (5 / 2)
   \<and> length (llm_pred_raw demo_chat [''a cat'', ''a dog'', ''a bird'']
         [''the cat'', ''the dog'', ''the bird'']) = 3"
proof -
  have c: "demo_chat 1 ''a dog'' ''the dog'' = Content (Some ''very similar'')"
    by (simp add: demo_chat_def)
  have u: "\<forall>t \<in> set (py_split ''very similar''). py_float t = None"
    by code_simp
  from llm_failure_fallback [of 1 "[''a cat'', ''a dog'', ''a bird'']"
      "[''the cat'', ''the dog'', ''the bird'']" demo_chat] c u
  show ?thesis by simp
qed

section \<open>The artifact writers: one score per line\<close>

lemma save_scores_foldl:
  "foldl (\<lambda>f s. f @ fmt s @ [CHR 0x0A]) acc scores = acc @ concat (map (\<lambda>s. fmt s @ [CHR 0x0A]) scores)"
  by (induction scores arbitrary: acc) simp_all

lemma llama_save_scores_foldl:
  "foldl (\<lambda>f s. f @ fmt s) acc scores = acc @ concat (map fmt scores)"
  by (induction scores arbitrary: acc) simp_all

lemma lines_acc_line:
  "CHR 0x0A \<notin> set l \<Longrightarrow> lines_acc cur (l @ CHR 0x0A # rest) = (rev cur @ l) # lines_acc [] rest"
  by (induction l arbitrary: cur) auto

lemma text_lines_terminated:
  "\<forall>l \<in> set ls. CHR 0x0A \<notin> set l \<Longrightarrow> text_lines (concat (map (\<lambda>l. l @ [CHR 0x0A]) ls)) = ls"
  unfolding text_lines_def
  by (induction ls) (simp_all add: lines_acc_line)

lemma save_scores_one_per_line:
  "\<forall>s \<in> set scores. CHR 0x0A \<notin> set (fmt s) \<Longrightarrow>
     text_lines (save_scores_to_file fmt scores) = map fmt scores"
  using text_lines_terminated [of "map fmt scores"]
  by (simp add: save_scores_to_file_def save_scores_foldl comp_def)

text \<open>
  C9. The writer of predictor.py ends every score with a line feed, so its text has one
  score per line. The writer of llama\_predictor.py writes the scores without any
  separator: for the scores 2.5 and 4.0 its text is the single line \<^verbatim>\<open>2.54.0\<close>.
\<close>

theorem llama_scores_run_together:
  "llama_save_scores_to_file demo_str [Fin (5 / 2), Fin 4] = ''2.54.0''
   \<and> text_lines (llama_save_scores_to_file demo_str [Fin (5 / 2), Fin 4]) = [''2.54.0'']
   \<and> text_lines (save_scores_to_file demo_str [Fin (5 / 2), Fin 4]) = [''2.5'', ''4.0'']"
  by (simp add: llama_save_scores_to_file_def save_scores_to_file_def demo_str_def text_lines_def)

section \<open>The evaluator: constant input\<close>

text \<open>
  For the predictions \<open>[1, 1]\<close> and the ground truth \<open>[1, 2]\<close> the correlation
  the evaluator reports is the float NaN, returned as an ordinary value.
\<close>

theorem constant_input_counterexample:
  "main_pearson_corr [1, 1] [1, 2] = Inr NaN"
  by (simp add: main_pearson_corr_def pearsonr_def is_constant_def)

text \<open>
  C4 (as the code has it). For two sequences of one length, at least 2, one of which is
  constant, the correlation the evaluator reports is the float NaN that
  \<^verbatim>\<open>pearsonr\<close> returns: no error is raised and no other marker of an undefined
  correlation is produced.
\<close>

theorem constant_input_gives_nan:
  assumes "length p = length g" and "2 \<le> length p" and "is_constant p \<or> is_constant g"
  shows "main_pearson_corr p g = Inr NaN"
  using assms by (auto simp: main_pearson_corr_def pearsonr_def)

theorem constant_input_gives_nan_witness:
  "length [3, 3, 3 :: real] = length [0, 5, 2 :: real] \<and> 2 \<le> length [3, 3, 3 :: real]
   \<and> is_constant [3, 3, 3] \<and> main_pearson_corr [3, 3, 3] [0, 5, 2] = Inr NaN"
proof -
  have c: "is_constant [3, 3, 3]" by (simp add: is_constant_def)
  from constant_input_gives_nan [of "[3, 3, 3]" "[0, 5, 2]"] c show ?thesis by simp
qed

section \<open>The evaluator: the sorted series\<close>

lemma key_le_less_eq: "key_le a b = (a \<le> b)"
  by (auto simp: key_le_def less_eq_prod_def)

lemma main_sorted_data_sort:
  "main_sorted_data test_pred_final test_gt = sort (zip test_pred_final test_gt)"
  by (simp add: main_sorted_data_def)

text \<open>
  C7. The reporting series is a permutation of the zipped (prediction, ground truth)
  pairs, ascending by prediction with ties ascending by ground truth, and it is the only
  such list: the series is determined by the input.
\<close>

theorem sorted_series:
  "mset (main_sorted_data p g) = mset (zip p g)
   \<and> sorted_wrt key_le (main_sorted_data p g)
   \<and> (\<forall>ys. mset ys = mset (zip p g) \<and> sorted_wrt key_le ys \<longrightarrow> ys = main_sorted_data p g)"
proof -
  have le: "key_le = (\<le>)"
    by (intro ext) (rule key_le_less_eq)
  have "sorted (sort (zip p g))"
    by (rule sorted_sort)
  moreover have "ys = sort (zip p g)" if "mset ys = mset (zip p g)" "sorted ys" for ys
    using properties_for_sort [OF that] by simp
  ultimately show ?thesis
    by (simp add: main_sorted_data_sort le)
qed

theorem sorted_series_witness:
  "mset [(1, 3), (1, 5), (2, 0 :: real)] = mset (zip [2, 1, 1 :: real] [0, 5, 3])
   \<and> sorted_wrt key_le [(1, 3), (1, 5), (2, 0)]
   \<and> main_sorted_data [2, 1, 1] [0, 5, 3] = [(1, 3), (1, 5), (2, 0)]"
proof -
  have m: "mset [(1, 3), (1, 5), (2, 0 :: real)] = mset (zip [2, 1, 1 :: real] [0, 5, 3])"
    by (simp add: add_mset_commute)
  have s: "sorted_wrt key_le [(1, 3), (1, 5), (2, 0 :: real)]"
    by (simp add: key_le_def)
  from sorted_series [of "[2, 1, 1]" "[0, 5, 3]"] m s
  have "[(1, 3), (1, 5), (2, 0)] = main_sorted_data [2, 1, 1] [0, 5, 3]"
    by blast
  with m s show ?thesis by simp
qed

section \<open>The embedding scorer: batching\<close>

lemma sims_loop_upt:
  "n \<le> length e1 \<Longrightarrow> n \<le> length e2 \<Longrightarrow> m \<le> n \<Longrightarrow>
     sims_loop e1 e2 [m..<n] sims =
       Inr (sims @ map (\<lambda>i. cosine_similarity (e1 ! i) (e2 ! i)) [m..<n])"
proof (induction "n - m" arbitrary: m sims)
  case 0
  then show ?case by simp
next
  case (Suc d)
  then have lt: "m < n" and d: "d = n - Suc m" by simp_all
  from lt have u: "[m..<n] = m # [Suc m..<n]" by (rule upt_conv_Cons)
  from Suc.hyps(1) [OF d Suc.prems(1,2)] lt Suc.prems show ?case
    by (simp add: u)
qed

text \<open>
  C10. For two sentence lists of one length, encoding their concatenation and splitting
  the embeddings at the length of the first list gives, for every index, the cosine
  similarity of the embeddings of the two sentences at that index; the result has the
  length of the lists.
\<close>

theorem batching_preserves_alignment:
  assumes "length sents1 = length sents2"
  shows "compute_semantic_similarities enc sents1 sents2 =
           Inr (map2 (\<lambda>s1 s2. cosine_similarity (enc s1) (enc s2)) sents1 sents2)"
proof -
  let ?n = "length sents1"
  have t: "take ?n (map enc (sents1 @ sents2)) = map enc sents1"
    and d: "drop ?n (map enc (sents1 @ sents2)) = map enc sents2"
    by simp_all
  have "sims_loop (map enc sents1) (map enc sents2) [0..<?n] [] =
          Inr ([] @ map (\<lambda>i. cosine_similarity (map enc sents1 ! i) (map enc sents2 ! i)) [0..<?n])"
    by (rule sims_loop_upt) (simp_all add: assms)
  also have "map (\<lambda>i. cosine_similarity (map enc sents1 ! i) (map enc sents2 ! i)) [0..<?n]
               = map2 (\<lambda>s1 s2. cosine_similarity (enc s1) (enc s2)) sents1 sents2"
    using assms by (intro nth_equalityI) simp_all
  finally show ?thesis
    by (simp add: compute_semantic_similarities_def encode_def Let_def t d del: map_append)
qed

theorem batching_preserves_alignment_witness:
  "length [''a cat'', ''dogs''] = length [''cats'', ''the dog'']
   \<and> compute_semantic_similarities demo_enc [''a cat'', ''dogs''] [''cats'', ''the dog''] =
       Inr [cosine_similarity [5, 1] [4, 1], cosine_similarity [4, 1] [7, 1]]"
  using batching_preserves_alignment [of "[''a cat'', ''dogs'']" "[''cats'', ''the dog'']" demo_enc]
  by (simp add: demo_enc_def)

section \<open>The lexical scorer: a sentence against itself\<close>

lemma dot_Nil [simp]: "dot [] b = 0" "dot a [] = 0"
  by (simp_all add: dot_def)

lemma dot_Cons [simp]: "dot (x # a) (y # b) = x * y + dot a b"
  by (simp add: dot_def)

lemma dot_self_nonneg: "0 \<le> dot v v"
  by (induction v) simp_all

lemma dot_self_pos: "x \<in> set v \<Longrightarrow> x \<noteq> 0 \<Longrightarrow> 0 < dot v v"
proof (induction v)
  case Nil
  then show ?case by simp
next
  case (Cons y v)
  from Cons.prems show ?case
  proof (cases "x = y")
    case True
    with Cons.prems have "y * y \<noteq> 0" and "0 \<le> y * y" by simp_all
    then have "0 < y * y" by (simp only: less_le) simp
    then have "0 < y * y + dot v v" using dot_self_nonneg [of v] by (rule add_pos_nonneg)
    then show ?thesis by simp
  next
    case False
    with Cons have "0 < dot v v" by simp
    with zero_le_square [of y] have "0 < y * y + dot v v" by (rule add_nonneg_pos)
    then show ?thesis by simp
  qed
qed

lemma dot_self_zero: "\<forall>x \<in> set v. x = 0 \<Longrightarrow> dot v v = 0"
  by (induction v) simp_all

lemma dot_scaled: "dot (map (\<lambda>x. x / n) v) (map (\<lambda>x. x / n) v) = dot v v / (n * n)"
  by (induction v) (simp_all add: add_divide_distrib)

lemma normalize_unit:
  assumes "dot v v \<noteq> 0"
  shows "dot (l2_normalize v) (l2_normalize v) = 1"
proof -
  from assms dot_self_nonneg [of v] have pos: "0 < dot v v" by simp
  then have n: "sqrt (dot v v) \<noteq> 0" by simp
  from pos have "sqrt (dot v v) * sqrt (dot v v) = dot v v" by simp
  with n pos show ?thesis
    by (simp add: l2_normalize_def Let_def dot_scaled)
qed

lemma cosine_self_unit:
  assumes "dot v v \<noteq> 0"
  shows "cosine_similarity (l2_normalize v) (l2_normalize v) = 1"
proof -
  from assms have u: "dot (l2_normalize v) (l2_normalize v) = 1" by (rule normalize_unit)
  then have "dot (l2_normalize v) (l2_normalize v) \<noteq> 0" by simp
  then show ?thesis unfolding cosine_similarity_def by (rule normalize_unit)
qed

lemma cosine_self_zero:
  assumes "\<forall>x \<in> set v. x = 0"
  shows "cosine_similarity (l2_normalize v) (l2_normalize v) = 0"
proof -
  from assms have z: "dot v v = 0" by (rule dot_self_zero)
  then have "l2_normalize v = v" by (simp add: l2_normalize_def)
  with z show ?thesis by (simp add: cosine_similarity_def)
qed

lemma map2_same: "map2 h (map a xs) (map b xs) = map (\<lambda>x. h (a x) (b x)) xs"
  by (induction xs) simp_all

lemma doc_freq_le: "doc_freq corpus t \<le> length corpus"
  by (simp add: doc_freq_def)

lemma idf_pos: "0 < ln ((1 + real (length corpus)) / (1 + real (doc_freq corpus t))) + 1"
proof -
  have "0 < 1 + real (doc_freq corpus t)" by simp
  moreover from doc_freq_le [of corpus t]
  have "1 + real (doc_freq corpus t) \<le> 1 + real (length corpus)" by simp
  ultimately have "1 \<le> (1 + real (length corpus)) / (1 + real (doc_freq corpus t))"
    by (simp only: le_divide_eq_1_pos)
  then have "0 \<le> ln ((1 + real (length corpus)) / (1 + real (doc_freq corpus t)))"
    by (rule ln_ge_zero)
  then show ?thesis by (rule add_nonneg_pos) simp
qed

lemma fit_vocabulary:
  "fit corpus =
     (if concat (map analyze corpus) = [] then Inl ValueError
      else Inr \<lparr> vocabulary = sort (remdups (concat (map analyze corpus))),
                 idf = map (\<lambda>t. ln ((1 + real (length corpus)) / (1 + real (doc_freq corpus t))) + 1)
                         (sort (remdups (concat (map analyze corpus)))) \<rparr>)"
proof -
  have "(sort (remdups (concat (map analyze corpus))) = []) = (concat (map analyze corpus) = [])"
    by (metis length_0_conv length_sort remdups_eq_nil_iff)
  then show ?thesis by (simp add: fit_def Let_def)
qed

lemma compute_tfidf_single:
  "compute_tfidf_similarities [s1] [s2] vz = [cosine_similarity (transform vz s1) (transform vz s2)]"
  by (simp add: compute_tfidf_similarities_def)

lemma transform_fitted:
  assumes "fit corpus = Inr vz"
  shows "transform vz s =
    l2_normalize (map (\<lambda>t. real (count_list (analyze s) t) *
                      (ln ((1 + real (length corpus)) / (1 + real (doc_freq corpus t))) + 1))
                (vocabulary vz))"
    and "set (vocabulary vz) = (\<Union>d \<in> set corpus. set (analyze d))"
proof -
  from assms have v: "vocabulary vz = sort (remdups (concat (map analyze corpus)))"
    and i: "idf vz = map (\<lambda>t. ln ((1 + real (length corpus)) / (1 + real (doc_freq corpus t))) + 1)
                         (sort (remdups (concat (map analyze corpus))))"
    by (auto simp: fit_vocabulary split: if_splits)
  show "transform vz s =
    l2_normalize (map (\<lambda>t. real (count_list (analyze s) t) *
                      (ln ((1 + real (length corpus)) / (1 + real (doc_freq corpus t))) + 1))
                (vocabulary vz))"
    unfolding transform_def i v by (simp only: map2_same)
  show "set (vocabulary vz) = (\<Union>d \<in> set corpus. set (analyze d))"
    unfolding v by simp
qed

lemma self_similarity_no_token:
  assumes "fit corpus = Inr vz" and "analyze s = []"
  shows "cosine_similarity (transform vz s) (transform vz s) = 0"
  unfolding transform_fitted(1) [OF assms(1)]
  by (rule cosine_self_zero) (simp add: assms(2))

lemma self_similarity_token:
  assumes "fit corpus = Inr vz" and "s \<in> set corpus" and "analyze s \<noteq> []"
  shows "cosine_similarity (transform vz s) (transform vz s) = 1"
proof -
  let ?w = "\<lambda>t. real (count_list (analyze s) t) *
              (ln ((1 + real (length corpus)) / (1 + real (doc_freq corpus t))) + 1)"
  from assms(3) obtain t where t: "t \<in> set (analyze s)"
    by (cases "analyze s") auto
  with assms(2) have "t \<in> set (vocabulary vz)"
    unfolding transform_fitted(2) [OF assms(1)] by blast
  then have "?w t \<in> set (map ?w (vocabulary vz))" by simp
  moreover from t have "count_list (analyze s) t \<noteq> 0"
    by (simp add: count_list_0_iff)
  with idf_pos [of corpus t] have "?w t \<noteq> 0" by simp
  ultimately have "0 < dot (map ?w (vocabulary vz)) (map ?w (vocabulary vz))"
    by (rule dot_self_pos)
  then have "dot (map ?w (vocabulary vz)) (map ?w (vocabulary vz)) \<noteq> 0" by simp
  then show ?thesis
    unfolding transform_fitted(1) [OF assms(1)] by (rule cosine_self_unit)
qed

text \<open>
  The sentence \<^verbatim>\<open>I\<close> is not empty and belongs to the corpus the vectorizer is fit
  on, but it has no token of two or more word characters: its vector is zero and its
  similarity with itself is 0.
\<close>

theorem self_similarity_counterexample:
  "''I'' \<noteq> [] \<and> ''I'' \<in> set ([''a cat sat''] @ [''I''])
   \<and> tfidf_scores [''a cat sat''] [''I''] [''I''] [''I''] = Inr [0]"
proof -
  have a: "analyze ''I'' = []" by code_simp
  have c: "concat (map analyze ([''a cat sat''] @ [''I''])) \<noteq> []" by code_simp
  then obtain vz where f: "fit ([''a cat sat''] @ [''I'']) = Inr vz"
    by (simp add: fit_vocabulary)
  from self_similarity_no_token [OF f a] f show ?thesis
    by (simp add: tfidf_scores_def compute_tfidf_single)
qed

text \<open>
  C8 (as the code has it). For every sentence of the corpus the vectorizer is fit on
  that has at least one token, the fit succeeds and the similarity of the sentence with
  itself is 1.
\<close>

theorem self_similarity_with_token:
  assumes "s \<in> set (train_sents1 @ train_sents2)" and "analyze s \<noteq> []"
  shows "tfidf_scores train_sents1 train_sents2 [s] [s] = Inr [1]"
proof -
  from assms have "concat (map analyze (train_sents1 @ train_sents2)) \<noteq> []"
    by auto
  then obtain vz where f: "fit (train_sents1 @ train_sents2) = Inr vz"
    by (simp add: fit_vocabulary)
  from self_similarity_token [OF f assms] f show ?thesis
    by (simp add: tfidf_scores_def compute_tfidf_single)
qed

theorem self_similarity_with_token_witness:
  "''a cat sat'' \<in> set ([''a cat sat'', ''a cat sat''] @ [''a cat sat'', ''a dog ran''])
   \<and> analyze ''a cat sat'' = [''cat'', ''sat'']
   \<and> tfidf_scores [''a cat sat'', ''a cat sat''] [''a cat sat'', ''a dog ran'']
        [''a cat sat''] [''a cat sat''] = Inr [1]"
proof -
  have a: "analyze ''a cat sat'' = [''cat'', ''sat'']" by code_simp
  from self_similarity_with_token [of "''a cat sat''" "[''a cat sat'', ''a cat sat'']"
      "[''a cat sat'', ''a dog ran'']"] a
  show ?thesis by simp
qed

end
